theory Spec2Isabelle
  imports Complex_Main "HOL-Library.Char_ord" "HOL-Library.List_Lexorder" "HOL-Library.Multiset"
begin

section \<open>The stock dashboard of App.tsx\<close>

text \<open>
  The component \<open>App\<close> keeps a text input, a table of rows, a loading flag, an error
  message, a sort key with its direction and the time of the last update. This theory
  embeds its decision logic: \<open>parseSymbols\<close>, the per-symbol classification inside
  \<open>fetchStocks\<close>, the refresh cycle \<open>fetchStocks\<close> itself, \<open>handleSort\<close> and
  \<open>sortedRows\<close>.
\<close>

subsection \<open>Strings\<close>

text \<open>
  The text of the input box and the symbols made from it are strings of the language:
  sequences of 16-bit code units, here the list of their numbers. \<open>lit\<close> gives the code
  units of a literal. Comparing two such lists with \<open><\<close> is the comparison of two
  strings, code unit by code unit.
\<close>

type_synonym ustring = "nat list"

definition lit :: "string \<Rightarrow> ustring" where
  "lit s = map of_char s"

text \<open>
  \<open>s.trim()\<close> removes white space and line terminators at both ends: tab, line feed,
  vertical tab, form feed, carriage return, space, no-break space, U+1680,
  U+2000..U+200A, U+2028, U+2029, U+202F, U+205F, U+3000 and U+FEFF. Each is one code
  unit.
\<close>

definition isWhiteSpace :: "nat \<Rightarrow> bool" where
  "isWhiteSpace c =
     (c \<in> set [0x09, 0x0A, 0x0B, 0x0C, 0x0D, 0x20, 0xA0, 0x1680, 0x2028, 0x2029, 0x202F,
                0x205F, 0x3000, 0xFEFF]
      \<or> (0x2000 \<le> c \<and> c \<le> 0x200A))"

definition trim :: "ustring \<Rightarrow> ustring" where
  "trim s = rev (dropWhile isWhiteSpace (rev (dropWhile isWhiteSpace s)))"

text \<open>
  \<open>s.toUpperCase()\<close> replaces each code point by its upper-case mapping, which may be
  several code points. A code point is one code unit, or a high surrogate followed by a
  low one. Below 128 the mapping sends the letters a..z to A..Z and keeps the rest. Above,
  it is a table of the Unicode standard, which is not part of the program: \<open>tbl\<close> gives,
  for the code units of one code point, the code units of its mapping.
\<close>

definition isLower :: "nat \<Rightarrow> bool" where
  "isLower c = (97 \<le> c \<and> c \<le> 122)"


definition upperAscii :: "nat \<Rightarrow> nat" where
  "upperAscii c = (if isLower c then c - 32 else c)"

definition isHighSurrogate :: "nat \<Rightarrow> bool" where
  "isHighSurrogate c = (0xD800 \<le> c \<and> c \<le> 0xDBFF)"

definition isLowSurrogate :: "nat \<Rightarrow> bool" where
  "isLowSurrogate c = (0xDC00 \<le> c \<and> c \<le> 0xDFFF)"

definition upperPoint :: "(ustring \<Rightarrow> ustring) \<Rightarrow> ustring \<Rightarrow> ustring" where
  "upperPoint tbl p =
     (case p of
        [c] \<Rightarrow> if c < 128 then [upperAscii c] else tbl p
      | _ \<Rightarrow> tbl p)"

fun toUpperCase :: "(ustring \<Rightarrow> ustring) \<Rightarrow> ustring \<Rightarrow> ustring" where
  "toUpperCase tbl [] = []"
| "toUpperCase tbl [c] = upperPoint tbl [c]"
| "toUpperCase tbl (c # d # cs) =
     (if isHighSurrogate c \<and> isLowSurrogate d
      then upperPoint tbl [c, d] @ toUpperCase tbl cs
      else upperPoint tbl [c] @ toUpperCase tbl (d # cs))"

text \<open>
  \<open>s.split(",")\<close>: the pieces between the separators, in order. The empty string gives
  one empty piece, and a separator at either end gives an empty piece there.
\<close>

fun split :: "'a \<Rightarrow> 'a list \<Rightarrow> 'a list list" where
  "split sep [] = [[]]"
| "split sep (c # cs) =
     (if c = sep then [] # split sep cs
      else (case split sep cs of
              [] \<Rightarrow> [[c]]
            | p # ps \<Rightarrow> (c # p) # ps))"


subsection \<open>The symbol normalizer\<close>

text \<open>
  \<open>parseSymbols\<close> reads the text input: split on the comma (code unit 44), trim and
  upper-case each piece, then \<open>filter(Boolean)\<close>, which keeps the non-empty strings.
\<close>

definition parseSymbols :: "(ustring \<Rightarrow> ustring) \<Rightarrow> ustring \<Rightarrow> ustring list" where
  "parseSymbols tbl symbolsInput =
     filter (\<lambda>s. s \<noteq> []) (map (\<lambda>s. toUpperCase tbl (trim s)) (split 44 symbolsInput))"

subsection \<open>Numbers and parsed response bodies\<close>

text \<open>
  A number of the language is modelled by its exact value: not-a-number, the two
  infinities, or a rational (every finite binary64 value is one; the two zeros are the
  same value here, as they are for \<open><\<close> and \<open>>\<close>).
\<close>

datatype jsnum = NaN | NegInf | Fin rat | PosInf

text \<open>The relational operator \<open><\<close> on numbers: false as soon as one side is NaN.\<close>

fun num_lt :: "jsnum \<Rightarrow> jsnum \<Rightarrow> bool" where
  "num_lt NaN y = False"
| "num_lt x NaN = False"
| "num_lt PosInf y = False"
| "num_lt x NegInf = False"
| "num_lt NegInf y = True"
| "num_lt x PosInf = True"
| "num_lt (Fin a) (Fin b) = (a < b)"

text \<open>
  The value \<open>res.json()\<close> resolves to. An object is the list of its own properties, one
  entry per key. A text inside a body is kept as a list of characters: the classifier
  only tests such a text for being empty, compares property names with the six names it
  reads, removes a \<open>%\<close> and hands the text to \<open>parseFloat\<close>.
\<close>

datatype json =
    JNull
  | JBool bool
  | JNum jsnum
  | JStr string
  | JArr "json list"
  | JObj "(string \<times> json) list"

text \<open>
  Reading a property gives a value or \<open>undefined\<close>, which is \<open>None\<close>. \<open>getProp key v\<close>
  is \<open>v[key]\<close> for a \<open>v\<close> other than null and for the six property names the source
  reads ("Note", "Information", "Error Message", "Global Quote", "05. price",
  "10. change percent"): none of them is an index, \<open>length\<close> or an inherited property, so
  only an object can have one.
\<close>

fun getProp :: "string \<Rightarrow> json \<Rightarrow> json option" where
  "getProp key (JObj kvs) = map_of kvs key"
| "getProp key v = None"

text \<open>Truthiness, as \<open>!x\<close>, \<open>x || y\<close> and \<open>if (x)\<close> read it.\<close>

fun truthyValue :: "json \<Rightarrow> bool" where
  "truthyValue JNull = False"
| "truthyValue (JBool b) = b"
| "truthyValue (JNum n) = (n \<noteq> NaN \<and> n \<noteq> Fin 0)"
| "truthyValue (JStr s) = (s \<noteq> [])"
| "truthyValue (JArr xs) = True"
| "truthyValue (JObj kvs) = True"

fun truthy :: "json option \<Rightarrow> bool" where
  "truthy None = False"
| "truthy (Some v) = truthyValue v"

text \<open>\<open>typeof x === "string"\<close>.\<close>

fun isString :: "json option \<Rightarrow> bool" where
  "isString (Some (JStr s)) = True"
| "isString x = False"

text \<open>\<open>Object.keys(v).length\<close> for a \<open>v\<close> other than null.\<close>

fun keysLength :: "json \<Rightarrow> nat" where
  "keysLength (JObj kvs) = length kvs"
| "keysLength (JArr xs) = length xs"
| "keysLength (JStr s) = length s"
| "keysLength v = 0"

text \<open>\<open>s.replace(c, "")\<close> with a string pattern: the first occurrence goes.\<close>

fun replaceFirst :: "char \<Rightarrow> string \<Rightarrow> string" where
  "replaceFirst c [] = []"
| "replaceFirst c (x # xs) = (if x = c then xs else x # replaceFirst c xs)"

subsection \<open>Rows and thrown values\<close>

datatype status = Ok | RateLimited | Error | NoData

record StockRow =
  symbol :: ustring
  price :: "jsnum option"
  changePercent :: "jsnum option"
  status :: status

text \<open>
  What a \<open>catch\<close> receives: an \<open>Error\<close> object with its message, or some other value.
  \<open>messageOf\<close> is \<open>err instanceof Error ? err.message : "Unexpected error"\<close>.
\<close>

datatype thrown = ErrorObject string | OtherValue

fun messageOf :: "thrown \<Rightarrow> string" where
  "messageOf (ErrorObject m) = m"
| "messageOf OtherValue = ''Unexpected error''"

text \<open>
  The two TypeErrors the loop body can raise by itself. The wording of their messages is
  the engine's; the model fixes one.
\<close>

definition nullReadError :: thrown where
  "nullReadError = ErrorObject ''Cannot read properties of null''"

definition notAFunctionError :: thrown where
  "notAFunctionError = ErrorObject ''replace is not a function''"

subsection \<open>The quote classifier\<close>

text \<open>
  Lines 71 to 120 of the loop body, for the parsed body \<open>data\<close> of one symbol: the row
  that is pushed, or the value that is thrown. \<open>pf\<close> is the language's \<open>parseFloat\<close>,
  applied to a value (it converts its argument to a string first).

  \<^item> \<open>data.Note\<close> on \<open>null\<close> raises a TypeError;
  \<^item> \<open>(quote["10. change percent"] || "0").replace\<close> is a function only when the
    left operand is a string: any other truthy value raises a TypeError.
\<close>

definition looksEmpty :: "json \<Rightarrow> json option \<Rightarrow> bool" where
  "looksEmpty data quote =
     (\<not> truthy quote \<and> keysLength (if truthyValue data then data else JObj []) = 0)"

definition noQuoteRow :: "ustring \<Rightarrow> status \<Rightarrow> StockRow" where
  "noQuoteRow sy st = \<lparr>symbol = sy, price = None, changePercent = None, status = st\<rparr>"

text \<open>\<open>x || d\<close>: the left operand when it is truthy, else the right one.\<close>

fun orElse :: "json option \<Rightarrow> json \<Rightarrow> json" where
  "orElse None d = d"
| "orElse (Some v) d = (if truthyValue v then v else d)"

text \<open>
  The test \<open>!quote || !quote["05. price"]\<close>: \<open>None\<close> when it holds, else the quote and
  its price field. The property is read only when \<open>quote\<close> is truthy.
\<close>

fun quotePrice :: "json option \<Rightarrow> (json \<times> json) option" where
  "quotePrice None = None"
| "quotePrice (Some q) =
     (if \<not> truthyValue q then None
      else (case getProp ''05. price'' q of
              None \<Rightarrow> None
            | Some p \<Rightarrow> if truthyValue p then Some (q, p) else None))"

definition classify :: "(json \<Rightarrow> jsnum) \<Rightarrow> ustring \<Rightarrow> json \<Rightarrow> thrown + StockRow" where
  "classify pf sy data =
     (if data = JNull then Inl nullReadError
      else if isString (getProp ''Note'' data) \<or> isString (getProp ''Information'' data)
      then Inr (noQuoteRow sy RateLimited)
      else if truthy (getProp ''Error Message'' data)
      then Inr (noQuoteRow sy Error)
      else
        (let quote = getProp ''Global Quote'' data in
         case quotePrice quote of
           None \<Rightarrow> Inr (noQuoteRow sy (if looksEmpty data quote then RateLimited else NoData))
         | Some (q, p) \<Rightarrow>
             (case orElse (getProp ''10. change percent'' q) (JStr ''0'') of
                JStr s \<Rightarrow>
                  Inr \<lparr>symbol = sy,
                       price = Some (pf p),
                       changePercent = Some (pf (JStr (replaceFirst CHR ''%'' s))),
                       status = Ok\<rparr>
              | _ \<Rightarrow> Inl notAFunctionError)))"

subsection \<open>The network\<close>

text \<open>
  What \<open>await fetch(url)\<close> followed by \<open>await res.json()\<close> can do for one request:
  \<open>fetch\<close> rejects with a thrown value (a network failure), or it resolves to a response
  with its \<open>ok\<close> flag and a body; the body parses to a value, or \<open>res.json()\<close> rejects
  with a SyntaxError carrying the given message.
\<close>

datatype body = Malformed string | Parsed json

datatype reply = Rejects thrown | Responds bool body

text \<open>
  The network answers the \<open>i\<close>-th request of a cycle for a symbol. The URL of a request is
  a function of the symbol and of the constant \<open>API_KEY\<close>, so the symbol stands for it;
  building it does not throw, since \<open>encodeURIComponent\<close> accepts every text of the model.
\<close>

type_synonym network = "nat \<Rightarrow> ustring \<Rightarrow> reply"

text \<open>
  One pass of the loop body (lines 52 to 120): the row pushed for the symbol, or the value
  thrown out of the loop. The \<open>console.log\<close> of line 69 is not modelled.
\<close>

fun fetchOne :: "(json \<Rightarrow> jsnum) \<Rightarrow> ustring \<Rightarrow> reply \<Rightarrow> thrown + StockRow" where
  "fetchOne pf sy (Rejects t) = Inl t"
| "fetchOne pf sy (Responds ok b) =
     (if \<not> ok then Inr (noQuoteRow sy Error)
      else (case b of
              Malformed m \<Rightarrow> Inl (ErrorObject m)
            | Parsed data \<Rightarrow> classify pf sy data))"

text \<open>
  The \<open>for\<close> loop over the symbols, with \<open>results\<close> as it grows. It returns the rows, or
  the thrown value that leaves the loop, together with the symbols requested so far.
\<close>

fun fetchLoop ::
  "(json \<Rightarrow> jsnum) \<Rightarrow> network \<Rightarrow> nat \<Rightarrow> ustring list \<Rightarrow> StockRow list
     \<Rightarrow> (thrown + StockRow list) \<times> ustring list" where
  "fetchLoop pf net i [] results = (Inr results, [])"
| "fetchLoop pf net i (sy # sys) results =
     (case fetchOne pf sy (net i sy) of
        Inl t \<Rightarrow> (Inl t, [sy])
      | Inr row \<Rightarrow>
          (case fetchLoop pf net (Suc i) sys (results @ [row]) of
             (r, requested) \<Rightarrow> (r, sy # requested)))"

subsection \<open>The component state and the refresh cycle\<close>

datatype SortKey = BySymbol | ByPrice | ByChangePercent

datatype SortDir = Asc | Desc

record App =
  symbolsInput :: ustring
  rows :: "StockRow list"
  loading :: bool
  error :: "string option"
  sortKey :: SortKey
  sortDir :: SortDir
  lastUpdated :: "nat option"

text \<open>The state the hooks of lines 18 to 32 start from.\<close>

definition initialApp :: App where
  "initialApp =
     \<lparr>symbolsInput = lit ''AAPL'', rows = [], loading = False, error = None,
      sortKey = BySymbol, sortDir = Asc, lastUpdated = None\<rparr>"

text \<open>Lines 45 and 46: the cycle takes the loading flag and clears the old message.\<close>

definition startCycle :: "App \<Rightarrow> App" where
  "startCycle s = s\<lparr>loading := True, error := None\<rparr>"

text \<open>
  \<open>fetchStocks\<close>, run to completion: the state it leaves and the requests it made.
  \<open>now\<close> is what \<open>new Date()\<close> gives at line 125.
\<close>

definition fetchStocks ::
  "(ustring \<Rightarrow> ustring) \<Rightarrow> (json \<Rightarrow> jsnum) \<Rightarrow> network \<Rightarrow> nat \<Rightarrow> App
     \<Rightarrow> App \<times> ustring list" where
  "fetchStocks tbl pf net now s =
     (let symbols = parseSymbols tbl (symbolsInput s) in
      if symbols = [] then (s, [])
      else
        (let s1 = startCycle s in
         case fetchLoop pf net 0 symbols [] of
           (Inr results, requested) \<Rightarrow>
             (s1\<lparr>rows := results, lastUpdated := Some now, loading := False\<rparr>, requested)
         | (Inl err, requested) \<Rightarrow>
             (s1\<lparr>error := Some (messageOf err), loading := False\<rparr>, requested)))"

subsection \<open>Sorting\<close>

definition flipDir :: "SortDir \<Rightarrow> SortDir" where
  "flipDir d = (if d = Asc then Desc else Asc)"

definition handleSort :: "SortKey \<Rightarrow> App \<Rightarrow> App" where
  "handleSort key s =
     (if key = sortKey s then s\<lparr>sortDir := flipDir (sortDir s)\<rparr>
      else s\<lparr>sortKey := key, sortDir := Asc\<rparr>)"

text \<open>
  \<open>a[sortKey] < b[sortKey]\<close>. Two symbols compare as strings, by code unit. Two
  numeric fields compare as numbers, where \<open>null\<close> converts to \<open>0\<close>.
\<close>

definition numOf :: "jsnum option \<Rightarrow> jsnum" where
  "numOf v = (case v of None \<Rightarrow> Fin 0 | Some n \<Rightarrow> n)"

fun keyLess :: "SortKey \<Rightarrow> StockRow \<Rightarrow> StockRow \<Rightarrow> bool" where
  "keyLess BySymbol a b = (symbol a < symbol b)"
| "keyLess ByPrice a b = num_lt (numOf (price a)) (numOf (price b))"
| "keyLess ByChangePercent a b = num_lt (numOf (changePercent a)) (numOf (changePercent b))"

text \<open>The comparison function of lines 149 to 156; \<open>av > bv\<close> is \<open>bv < av\<close>.\<close>

definition compareRows :: "SortKey \<Rightarrow> SortDir \<Rightarrow> StockRow \<Rightarrow> StockRow \<Rightarrow> int" where
  "compareRows key d a b =
     (let dir = (if d = Asc then 1 else - 1) in
      if keyLess key a b then - 1 * dir
      else if keyLess key b a then 1 * dir
      else 0)"

text \<open>Two rows tie on the key: neither is below the other, and the comparison gives 0.\<close>

definition tied :: "SortKey \<Rightarrow> StockRow \<Rightarrow> StockRow \<Rightarrow> bool" where
  "tied key a b = (\<not> keyLess key a b \<and> \<not> keyLess key b a)"

text \<open>
  The language calls a comparison function consistent on the values to sort when it is
  an order on them. This one always gives the same answer, negates when its arguments
  are swapped and is transitive where it is not 0, so what remains is that tying is
  transitive. A NaN key ties with every key: it breaks consistency as soon as two other
  rows do not tie.
\<close>

definition consistentOn :: "SortKey \<Rightarrow> StockRow list \<Rightarrow> bool" where
  "consistentOn key rs =
     (\<forall>a \<in> set rs. \<forall>b \<in> set rs. \<forall>c \<in> set rs. tied key a b \<and> tied key b c \<longrightarrow> tied key a c)"

text \<open>
  What \<open>Array.prototype.sort\<close> promises of its result \<open>ys\<close> for the array \<open>rs\<close>: it is
  a rearrangement; and when the comparison function is consistent on \<open>rs\<close>, no row
  stands before one it compares above, and rows that tie keep their input order. With a
  comparison that is not consistent the order is left to the engine.
\<close>

definition inOrder :: "SortKey \<Rightarrow> SortDir \<Rightarrow> StockRow list \<Rightarrow> bool" where
  "inOrder key d ys = sorted_wrt (\<lambda>a b. compareRows key d a b \<le> 0) ys"

definition stableFor :: "SortKey \<Rightarrow> StockRow list \<Rightarrow> StockRow list \<Rightarrow> bool" where
  "stableFor key rs ys = (\<forall>x \<in> set rs. filter (tied key x) ys = filter (tied key x) rs)"

definition sortsTo :: "SortKey \<Rightarrow> SortDir \<Rightarrow> StockRow list \<Rightarrow> StockRow list \<Rightarrow> bool" where
  "sortsTo key d rs ys =
     (mset ys = mset rs \<and> (consistentOn key rs \<longrightarrow> inOrder key d ys \<and> stableFor key rs ys))"

text \<open>
  The stable insertion sort. Under a consistent comparison only one arrangement is in
  order and stable, and \<open>sortRows\<close> computes it: it is then the result of \<open>sort\<close>.
\<close>

fun insertBy :: "('a \<Rightarrow> 'a \<Rightarrow> int) \<Rightarrow> 'a \<Rightarrow> 'a list \<Rightarrow> 'a list" where
  "insertBy cmp x [] = [x]"
| "insertBy cmp x (y # ys) = (if cmp x y \<le> 0 then x # y # ys else y # insertBy cmp x ys)"

fun sortBy :: "('a \<Rightarrow> 'a \<Rightarrow> int) \<Rightarrow> 'a list \<Rightarrow> 'a list" where
  "sortBy cmp [] = []"
| "sortBy cmp (x # xs) = insertBy cmp x (sortBy cmp xs)"

definition sortRows :: "SortKey \<Rightarrow> SortDir \<Rightarrow> StockRow list \<Rightarrow> StockRow list" where
  "sortRows key d rs = sortBy (compareRows key d) rs"






subsection \<open>A reading of parseFloat\<close>

text \<open>
  \<open>parseFloat\<close> belongs to the language, so the classifier above takes it as \<open>pf\<close>. The
  examples need one to compute with: \<open>parseFloatExact\<close> skips leading white space and
  reads the longest prefix that is a decimal literal (sign, digits, fraction, exponent,
  or \<open>Infinity\<close>), giving NaN when there is none. It keeps the exact value of the
  literal, where the language rounds it to the nearest binary64 number.
\<close>

definition isSpace :: "char \<Rightarrow> bool" where
  "isSpace c =
     (c \<in> set [CHR 0x09, CHR 0x0A, CHR 0x0B, CHR 0x0C, CHR 0x0D, CHR 0x20, CHR 0xA0])"

definition trimStart :: "string \<Rightarrow> string" where
  "trimStart s = dropWhile isSpace s"

definition isDigit :: "char \<Rightarrow> bool" where
  "isDigit c = (CHR ''0'' \<le> c \<and> c \<le> CHR ''9'')"

definition digitsValue :: "string \<Rightarrow> nat" where
  "digitsValue ds = foldl (\<lambda>n c. 10 * n + (of_char c - 48)) 0 ds"

definition scale10 :: "rat \<Rightarrow> int \<Rightarrow> rat" where
  "scale10 m e = (if 0 \<le> e then m * 10 ^ nat e else m / 10 ^ nat (- e))"

text \<open>
  The exponent part after the mantissa: \<open>e\<close> or \<open>E\<close>, an optional sign and at least one
  digit. Anything else is no exponent, that is \<open>0\<close>.
\<close>

fun exponentPart :: "string \<Rightarrow> int" where
  "exponentPart (c # s # r) =
     (if c = CHR ''e'' \<or> c = CHR ''E'' then
        (if s = CHR ''+'' then int (digitsValue (takeWhile isDigit r))
         else if s = CHR ''-'' then - int (digitsValue (takeWhile isDigit r))
         else int (digitsValue (takeWhile isDigit (s # r))))
      else 0)"
| "exponentPart r = 0"

definition unsignedLiteral :: "string \<Rightarrow> jsnum" where
  "unsignedLiteral s =
     (if take 8 s = ''Infinity'' then PosInf
      else
        (let ip = takeWhile isDigit s;
             r1 = dropWhile isDigit s;
             dot = (r1 \<noteq> [] \<and> hd r1 = CHR ''.'');
             fp = (if dot then takeWhile isDigit (tl r1) else []);
             r2 = (if dot then dropWhile isDigit (tl r1) else r1)
         in if ip = [] \<and> fp = [] then NaN
            else Fin (scale10 (of_nat (digitsValue (ip @ fp)))
                        (exponentPart r2 - int (length fp)))))"

fun negate :: "jsnum \<Rightarrow> jsnum" where
  "negate NaN = NaN"
| "negate NegInf = PosInf"
| "negate PosInf = NegInf"
| "negate (Fin q) = Fin (- q)"

definition parseFloatString :: "string \<Rightarrow> jsnum" where
  "parseFloatString s =
     (case trimStart s of
        [] \<Rightarrow> NaN
      | c # r \<Rightarrow>
          if c = CHR ''-'' then negate (unsignedLiteral r)
          else if c = CHR ''+'' then unsignedLiteral r
          else unsignedLiteral (c # r))"

text \<open>
  On a value that is not a string: a number reads back as itself; \<open>null\<close>, a boolean and
  an object convert to text with no numeric prefix; an array converts to its elements
  joined by commas, so only its first element counts (\<open>null\<close> there is the empty text).
\<close>

fun parseFloatExact :: "json \<Rightarrow> jsnum" where
  "parseFloatExact (JStr s) = parseFloatString s"
| "parseFloatExact (JNum n) = n"
| "parseFloatExact (JArr (JNull # xs)) = NaN"
| "parseFloatExact (JArr (x # xs)) = parseFloatExact x"
| "parseFloatExact v = NaN"

subsection \<open>Predicates of the claims\<close>

text \<open>The invariant of a row: both numbers or none, and none unless the status is ok.\<close>

definition rowInvariant :: "StockRow \<Rightarrow> bool" where
  "rowInvariant r =
     ((price r = None \<longleftrightarrow> changePercent r = None) \<and>
      (status r \<noteq> Ok \<longrightarrow> price r = None \<and> changePercent r = None))"



text \<open>The field a numeric sort key reads, and whether a row's key is not NaN.\<close>

definition numericField :: "SortKey \<Rightarrow> StockRow \<Rightarrow> jsnum option" where
  "numericField key r =
     (case key of BySymbol \<Rightarrow> None | ByPrice \<Rightarrow> price r | ByChangePercent \<Rightarrow> changePercent r)"

definition keyDefined :: "SortKey \<Rightarrow> StockRow \<Rightarrow> bool" where
  "keyDefined key r = (key = BySymbol \<or> numOf (numericField key r) \<noteq> NaN)"

text \<open>The row of line 113 for a price and a change percent that are finite.\<close>

definition quoteRow :: "ustring \<Rightarrow> rat \<Rightarrow> rat \<Rightarrow> StockRow" where
  "quoteRow sy p c =
     \<lparr>symbol = sy, price = Some (Fin p), changePercent = Some (Fin c), status = Ok\<rparr>"

text \<open>A row with \<open>0\<close> written in place of each \<open>null\<close> number.\<close>

definition nullAsZero :: "StockRow \<Rightarrow> StockRow" where
  "nullAsZero r = r\<lparr>price := Some (numOf (price r)), changePercent := Some (numOf (changePercent r))\<rparr>"



text \<open>
  The bodies on which line 117 throws: no rule before line 113 matches, and the
  change-percent field of the quote is truthy and not a string, so that it has no
  \<open>replace\<close>.
\<close>

definition replaceThrows :: "json \<Rightarrow> bool" where
  "replaceThrows data =
     (\<not> isString (getProp ''Note'' data) \<and> \<not> isString (getProp ''Information'' data) \<and>
      \<not> truthy (getProp ''Error Message'' data) \<and>
      (case getProp ''Global Quote'' data of
         None \<Rightarrow> False
       | Some q \<Rightarrow>
           truthyValue q \<and> truthy (getProp ''05. price'' q) \<and>
           truthy (getProp ''10. change percent'' q) \<and>
           \<not> isString (getProp ''10. change percent'' q)))"

text \<open>
  The body of a successful answer, as the provider sends it: a quote with a price and a
  change percent, both as text.
\<close>

definition quoteBody :: "string \<Rightarrow> string \<Rightarrow> json" where
  "quoteBody p c =
     JObj [(''Global Quote'', JObj [(''05. price'', JStr p), (''10. change percent'', JStr c)])]"

text \<open>
  The state after the first load, when the request for AAPL made at time 5 was answered
  with the price 123.45 and the change 1.23%.
\<close>

definition loadedApp :: App where
  "loadedApp =
     initialApp\<lparr>rows := [quoteRow (lit ''AAPL'') (2469 / 20) (123 / 100)], lastUpdated := Some 5\<rparr>"

section \<open>The refresh cycle\<close>

subsection \<open>Rows of a cycle\<close>

lemma classify_row:
  "classify pf sy data = Inr row \<Longrightarrow> rowInvariant row \<and> symbol row = sy"
  by (auto simp: classify_def noQuoteRow_def rowInvariant_def Let_def
      split: if_splits option.splits prod.splits json.splits)

lemma fetchOne_row:
  "fetchOne pf sy rep = Inr row \<Longrightarrow> rowInvariant row \<and> symbol row = sy"
proof (cases rep)
  case (Rejects t)
  assume "fetchOne pf sy rep = Inr row"
  with Rejects show ?thesis by simp
next
  case (Responds ok b)
  assume h: "fetchOne pf sy rep = Inr row"
  show ?thesis
  proof (cases ok)
    case False
    with h Responds show ?thesis by (auto simp: noQuoteRow_def rowInvariant_def)
  next
    case True
    with h Responds show ?thesis
      by (cases b) (auto dest: classify_row)
  qed
qed

lemma fetchLoop_rows:
  "fetchLoop pf net i sys acc = (Inr results, requested) \<Longrightarrow>
   \<forall>r \<in> set acc. rowInvariant r \<Longrightarrow> \<forall>r \<in> set results. rowInvariant r"
proof (induction sys arbitrary: i acc requested)
  case Nil
  then show ?case by simp
next
  case (Cons sy sys)
  from Cons.prems(1) obtain row req' where
    one: "fetchOne pf sy (net i sy) = Inr row" and
    rest: "fetchLoop pf net (Suc i) sys (acc @ [row]) = (Inr results, req')"
    by (auto split: sum.splits prod.splits)
  from one have "rowInvariant row" by (simp add: fetchOne_row)
  with Cons.prems(2) have "\<forall>r \<in> set (acc @ [row]). rowInvariant r" by simp
  with Cons.IH[OF rest] show ?case .
qed

lemmas norm_eval = parseSymbols_def lit_def trim_def isWhiteSpace_def upperPoint_def
  upperAscii_def isLower_def isHighSurrogate_def isLowSurrogate_def

lemma parseSymbols_default: "parseSymbols tbl (lit ''AAPL'') = [lit ''AAPL'']"
  by (simp add: norm_eval)

lemma parseSymbols_ABC: "parseSymbols tbl (lit ''A,B,C'') = [lit ''A'', lit ''B'', lit ''C'']"
  by (simp add: norm_eval)


text \<open>A space, a no-break space and a line separator between commas: no symbol.\<close>

lemma parseSymbols_blank: "parseSymbols tbl [32, 44, 160, 44, 8232] = []"
  by (simp add: norm_eval)

text \<open>
  Claim C5. Every row a fetch cycle produces has its price and its change percent both
  set or both unset, and both unset whenever its status is not ok. This holds of the row
  one pass of the loop body pushes, of the rows a completed loop returns, and the rows of
  the state keep it across a cycle.
\<close>

theorem rows_invariant:
  "(fetchOne pf sy rep = Inr row \<longrightarrow> rowInvariant row) \<and>
   (fetchLoop pf net 0 sys [] = (Inr results, requested) \<longrightarrow>
      (\<forall>r \<in> set results. rowInvariant r)) \<and>
   ((\<forall>r \<in> set (rows s). rowInvariant r) \<longrightarrow>
      (\<forall>r \<in> set (rows (fst (fetchStocks tbl pf net now s))). rowInvariant r))"
proof (intro conjI impI)
  assume "fetchOne pf sy rep = Inr row"
  then show "rowInvariant row" by (simp add: fetchOne_row)
next
  assume "fetchLoop pf net 0 sys [] = (Inr results, requested)"
  then show "\<forall>r \<in> set results. rowInvariant r"
    by (rule fetchLoop_rows) simp
next
  assume old: "\<forall>r \<in> set (rows s). rowInvariant r"
  show "\<forall>r \<in> set (rows (fst (fetchStocks tbl pf net now s))). rowInvariant r"
  proof (cases "parseSymbols tbl (symbolsInput s) = []")
    case True
    with old show ?thesis by (simp add: fetchStocks_def)
  next
    case False
    obtain r req where
      loop: "fetchLoop pf net 0 (parseSymbols tbl (symbolsInput s)) [] = (r, req)"
      by (cases "fetchLoop pf net 0 (parseSymbols tbl (symbolsInput s)) []")
    show ?thesis
    proof (cases r)
      case (Inl err)
      with False loop old show ?thesis by (simp add: fetchStocks_def startCycle_def)
    next
      case (Inr results)
      with loop have "\<forall>r \<in> set results. rowInvariant r"
        by (auto dest: fetchLoop_rows)
      with False loop Inr show ?thesis by (simp add: fetchStocks_def startCycle_def)
    qed
  qed
qed

lemma parseFloatString_price: "parseFloatString ''123.45'' = Fin (2469 / 20)"
  by (simp add: parseFloatString_def trimStart_def isSpace_def unsignedLiteral_def isDigit_def
      digitsValue_def scale10_def Let_def)

lemma parseFloatString_change: "parseFloatString ''1.23'' = Fin (123 / 100)"
  by (simp add: parseFloatString_def trimStart_def isSpace_def unsignedLiteral_def isDigit_def
      digitsValue_def scale10_def Let_def)



lemma classify_quoteBody:
  "classify parseFloatExact sy (quoteBody ''123.45'' ''1.23%'') =
     Inr \<lparr>symbol = sy, price = Some (Fin (2469 / 20)),
          changePercent = Some (Fin (123 / 100)), status = Ok\<rparr>"
  by (simp add: classify_def quoteBody_def Let_def parseFloatString_price parseFloatString_change)


theorem rows_invariant_witness:
  "fetchOne parseFloatExact (lit ''AAPL'') (Responds True (Parsed (quoteBody ''123.45'' ''1.23%''))) =
     Inr \<lparr>symbol = lit ''AAPL'', price = Some (Fin (2469 / 20)),
          changePercent = Some (Fin (123 / 100)), status = Ok\<rparr> \<and>
   rowInvariant \<lparr>symbol = lit ''AAPL'', price = Some (Fin (2469 / 20)),
          changePercent = Some (Fin (123 / 100)), status = Ok\<rparr> \<and>
   fetchOne parseFloatExact (lit ''AAPL'') (Responds False (Malformed [])) =
     Inr \<lparr>symbol = lit ''AAPL'', price = None, changePercent = None, status = Error\<rparr> \<and>
   rowInvariant \<lparr>symbol = lit ''AAPL'', price = None, changePercent = None, status = Error\<rparr>"
proof -
  have a: "fetchOne parseFloatExact (lit ''AAPL'')
             (Responds True (Parsed (quoteBody ''123.45'' ''1.23%''))) =
     Inr \<lparr>symbol = lit ''AAPL'', price = Some (Fin (2469 / 20)),
          changePercent = Some (Fin (123 / 100)), status = Ok\<rparr>"
    by (simp add: classify_quoteBody)
  have b: "fetchOne parseFloatExact (lit ''AAPL'') (Responds False (Malformed [])) =
     Inr \<lparr>symbol = lit ''AAPL'', price = None, changePercent = None, status = Error\<rparr>"
    by (simp add: noQuoteRow_def)
  from a b
    rows_invariant[of parseFloatExact "lit ''AAPL''"
      "Responds True (Parsed (quoteBody ''123.45'' ''1.23%''))"
      "\<lparr>symbol = lit ''AAPL'', price = Some (Fin (2469 / 20)),
          changePercent = Some (Fin (123 / 100)), status = Ok\<rparr>"]
    rows_invariant[of parseFloatExact "lit ''AAPL''" "Responds False (Malformed [])"
      "\<lparr>symbol = lit ''AAPL'', price = None, changePercent = None, status = Error\<rparr>"]
  show ?thesis by simp
qed

subsection \<open>States the component reaches\<close>

text \<open>
  The first load brings the initial state to \<open>loadedApp\<close>. The witnesses below start
  from it, after the text of the input box has been edited.
\<close>

lemma first_load:
  "fetchStocks tbl parseFloatExact
     (\<lambda>i sy. Responds True (Parsed (quoteBody ''123.45'' ''1.23%''))) 5 initialApp
   = (loadedApp, [lit ''AAPL''])"
  by (simp add: fetchStocks_def startCycle_def initialApp_def loadedApp_def parseSymbols_default
      classify_quoteBody quoteRow_def)

lemma loadedApp_fields:
  "rows loadedApp = [quoteRow (lit ''AAPL'') (2469 / 20) (123 / 100)]"
  "lastUpdated loadedApp = Some 5"
  "loading loadedApp = False"
  "error loadedApp = None"
  by (simp_all add: loadedApp_def initialApp_def)

subsection \<open>The guard on an empty symbol list\<close>

text \<open>
  Claim C7. When the text input normalizes to no symbol, \<open>fetchStocks\<close> returns at line
  43: it makes no request and leaves the whole state, with rows, loading, error and
  lastUpdated, as it was.
\<close>

theorem fetchStocks_empty_guard:
  "parseSymbols tbl (symbolsInput s) = [] \<Longrightarrow> fetchStocks tbl pf net now s = (s, [])"
  by (simp add: fetchStocks_def)

text \<open>
  The witness is the loaded state after a failed refresh has left its message, with the
  input edited to a space, a no-break space and a line separator between commas. A
  network that would answer every request is not asked, and the rows, the message and
  the time of the last update are still there.
\<close>

theorem fetchStocks_empty_guard_witness:
  "parseSymbols (\<lambda>p. p)
     (symbolsInput (loadedApp\<lparr>symbolsInput := [32, 44, 160, 44, 8232],
                              error := Some ''Failed to fetch''\<rparr>)) = [] \<and>
   fetchStocks (\<lambda>p. p) parseFloatExact
       (\<lambda>i sy. Responds True (Parsed (quoteBody ''125'' ''2%''))) 9
       (loadedApp\<lparr>symbolsInput := [32, 44, 160, 44, 8232], error := Some ''Failed to fetch''\<rparr>)
     = (\<lparr>symbolsInput = [32, 44, 160, 44, 8232],
         rows = [quoteRow (lit ''AAPL'') (2469 / 20) (123 / 100)],
         loading = False, error = Some ''Failed to fetch'',
         sortKey = BySymbol, sortDir = Asc, lastUpdated = Some 5\<rparr>, [])"
proof -
  let ?s = "loadedApp\<lparr>symbolsInput := [32, 44, 160, 44, 8232], error := Some ''Failed to fetch''\<rparr>"
  have h: "parseSymbols (\<lambda>p. p) (symbolsInput ?s) = []"
    by (simp add: parseSymbols_blank)
  have e: "?s = \<lparr>symbolsInput = [32, 44, 160, 44, 8232],
         rows = [quoteRow (lit ''AAPL'') (2469 / 20) (123 / 100)],
         loading = False, error = Some ''Failed to fetch'',
         sortKey = BySymbol, sortDir = Asc, lastUpdated = Some 5\<rparr>"
    by (simp add: loadedApp_def initialApp_def)
  from fetchStocks_empty_guard[OF h, of parseFloatExact
      "\<lambda>i sy. Responds True (Parsed (quoteBody ''125'' ''2%''))" 9] h e
  show ?thesis by simp
qed

subsection \<open>A cycle that aborts\<close>





subsection \<open>A request that throws\<close>

text \<open>
  Claim C1. For the symbols A, B, C where the request for B throws, the claim expects
  three rows A, B (error), C, loading false and lastUpdated set. The loop has no handler
  of its own: \<open>await fetch(url)\<close> at line 56 throws out of the loop into the handler of
  line 126. So the cycle ends after the request for B, with the error message set, the
  rows and lastUpdated as they were before, and no request for C.
\<close>

theorem fetchStocks_rejected_request:
  "fetchStocks tbl pf
     (\<lambda>i sy. if sy = lit ''B'' then Rejects (ErrorObject ''Failed to fetch'')
              else Responds True (Parsed (JObj [])))
     now (s\<lparr>symbolsInput := lit ''A,B,C''\<rparr>)
   = (s\<lparr>symbolsInput := lit ''A,B,C'', error := Some ''Failed to fetch'', loading := False\<rparr>,
      [lit ''A'', lit ''B''])"
proof -
  have "lit ''A'' \<noteq> lit ''B''" by (simp add: lit_def)
  then show ?thesis
    by (simp add: fetchStocks_def startCycle_def parseSymbols_ABC classify_def Let_def
        noQuoteRow_def looksEmpty_def)
qed

section \<open>The sort state\<close>

text \<open>
  Claim C8 says that two toggles of the same column give ascending and then descending.
  In the initial state the symbol column is active and ascending: the first toggle of it
  gives descending and the second gives ascending.
\<close>

theorem handleSort_twice_counterexample:
  "sortKey initialApp = BySymbol \<and>
   sortDir (handleSort BySymbol initialApp) \<noteq> Asc \<and>
   sortDir (handleSort BySymbol (handleSort BySymbol initialApp)) \<noteq> Desc"
  by (simp add: handleSort_def initialApp_def flipDir_def)

text \<open>
  Claim C8, amended. Selecting a key that is not the active one makes it the active key
  with direction ascending; toggling the active key flips the direction and keeps the
  key. Two toggles of the same column never change the active column between them. They
  give ascending and then descending when the column was not active before, or was active
  with direction descending; when it was active with direction ascending, as the symbol
  column is in the initial state, they give descending and then ascending.
\<close>

theorem handleSort_toggle:
  "(key \<noteq> sortKey s \<longrightarrow> handleSort key s = s\<lparr>sortKey := key, sortDir := Asc\<rparr>) \<and>
   (key = sortKey s \<longrightarrow> handleSort key s = s\<lparr>sortDir := flipDir (sortDir s)\<rparr>) \<and>
   sortKey (handleSort key (handleSort key s)) = sortKey (handleSort key s) \<and>
   (key \<noteq> sortKey s \<or> sortDir s = Desc \<longrightarrow>
      sortDir (handleSort key s) = Asc \<and> sortDir (handleSort key (handleSort key s)) = Desc) \<and>
   (key = sortKey s \<and> sortDir s = Asc \<longrightarrow>
      sortDir (handleSort key s) = Desc \<and> sortDir (handleSort key (handleSort key s)) = Asc)"
  by (auto simp: handleSort_def flipDir_def)

theorem handleSort_toggle_witness:
  "ByPrice \<noteq> sortKey initialApp \<and>
   handleSort ByPrice initialApp = initialApp\<lparr>sortKey := ByPrice, sortDir := Asc\<rparr> \<and>
   sortDir (handleSort ByPrice (handleSort ByPrice initialApp)) = Desc \<and>
   sortKey (handleSort ByPrice (handleSort ByPrice initialApp)) = ByPrice \<and>
   BySymbol = sortKey initialApp \<and> sortDir initialApp = Asc \<and>
   handleSort BySymbol initialApp = initialApp\<lparr>sortDir := Desc\<rparr> \<and>
   sortDir (handleSort BySymbol (handleSort BySymbol initialApp)) = Asc"
  using handleSort_toggle[of ByPrice initialApp] handleSort_toggle[of BySymbol initialApp]
  by (simp add: initialApp_def flipDir_def handleSort_def)

section \<open>The row sorter\<close>

subsection \<open>The comparison function\<close>

lemma num_lt_irrefl: "\<not> num_lt x x"
  by (cases x) simp_all

lemma num_lt_asym: "num_lt x y \<Longrightarrow> \<not> num_lt y x"
  by (cases x; cases y) simp_all

lemma num_lt_trans: "num_lt x y \<Longrightarrow> num_lt y z \<Longrightarrow> num_lt x z"
  by (cases x; cases y; cases z) simp_all

lemma keyLess_irrefl: "\<not> keyLess key a a"
  by (cases key) (simp_all add: num_lt_irrefl)

lemma keyLess_asym: "keyLess key a b \<Longrightarrow> \<not> keyLess key b a"
  by (cases key) (auto dest: num_lt_asym)

lemma keyLess_trans: "keyLess key a b \<Longrightarrow> keyLess key b c \<Longrightarrow> keyLess key a c"
  by (cases key) (auto intro: num_lt_trans)


lemma compareRows_swap: "compareRows key d b a = - compareRows key d a b"
  by (auto simp: compareRows_def dest: keyLess_asym)


subsection \<open>The sort rearranges, and keeps what is in order\<close>

lemma set_insertBy: "set (insertBy cmp x ys) = insert x (set ys)"
  by (induction ys) auto

lemma set_sortBy: "set (sortBy cmp xs) = set xs"
  by (induction xs) (simp_all add: set_insertBy)

lemma mset_insertBy: "mset (insertBy cmp x ys) = add_mset x (mset ys)"
  by (induction ys) auto

lemma mset_sortBy: "mset (sortBy cmp xs) = mset xs"
  by (induction xs) (simp_all add: mset_insertBy)


text \<open>
  Stability: among rows of which any two may stand in either order, the sort changes
  nothing.
\<close>

lemma filter_insertBy_in:
  "P x \<Longrightarrow> \<forall>z \<in> set ys. P z \<longrightarrow> cmp x z \<le> 0 \<Longrightarrow>
   filter P (insertBy cmp x ys) = x # filter P ys"
  by (induction ys) auto

lemma filter_insertBy_out:
  "\<not> P x \<Longrightarrow> filter P (insertBy cmp x ys) = filter P ys"
  by (induction ys) auto

lemma filter_sortBy:
  assumes tie: "\<And>a b. P a \<Longrightarrow> P b \<Longrightarrow> cmp a b \<le> 0"
  shows "filter P (sortBy cmp xs) = filter P xs"
proof (induction xs)
  case Nil
  then show ?case by simp
next
  case (Cons x xs)
  show ?case
  proof (cases "P x")
    case True
    then have "filter P (insertBy cmp x (sortBy cmp xs)) = x # filter P (sortBy cmp xs)"
      by (intro filter_insertBy_in) (auto intro: tie)
    with True Cons.IH show ?thesis by simp
  next
    case False
    with Cons.IH show ?thesis by (simp add: filter_insertBy_out)
  qed
qed

subsection \<open>Keys without ties\<close>








lemma mset_sortRows: "mset (sortRows key d rs) = mset rs"
  by (simp add: sortRows_def mset_sortBy)

lemma set_sortRows: "set (sortRows key d rs) = set rs"
  by (simp add: sortRows_def set_sortBy)


subsection \<open>Null as zero, and keys that are not NaN\<close>

lemma compareRows_nullAsZero:
  "compareRows key d (nullAsZero a) (nullAsZero b) = compareRows key d a b"
  by (cases key) (simp_all add: compareRows_def nullAsZero_def numOf_def)

lemma map_insertBy:
  assumes "\<And>a b. cmp (f a) (f b) = cmp a b"
  shows "map f (insertBy cmp x ys) = insertBy cmp (f x) (map f ys)"
  by (induction ys) (simp_all add: assms)

lemma map_sortBy:
  assumes "\<And>a b. cmp (f a) (f b) = cmp a b"
  shows "map f (sortBy cmp xs) = sortBy cmp (map f xs)"
  by (induction xs) (simp_all add: map_insertBy[of cmp f, OF assms])

lemma map_nullAsZero_sortRows:
  "map nullAsZero (sortRows key d rs) = sortRows key d (map nullAsZero rs)"
  unfolding sortRows_def by (rule map_sortBy) (rule compareRows_nullAsZero)

lemma compareRows_le:
  "compareRows key d a b \<le> 0 \<longleftrightarrow> (if d = Asc then \<not> keyLess key b a else \<not> keyLess key a b)"
  by (auto simp: compareRows_def dest: keyLess_asym)

lemma compareRows_refl: "compareRows key d a a = 0"
  by (simp add: compareRows_def keyLess_irrefl)

lemma sortRows_pair:
  "sortRows key d [a, b] = (if compareRows key d a b \<le> 0 then [a, b] else [b, a])"
  by (simp add: sortRows_def)

lemma keyLess_numeric:
  "key \<noteq> BySymbol \<Longrightarrow>
   keyLess key a b = num_lt (numOf (numericField key a)) (numOf (numericField key b))"
  by (cases key) (simp_all add: numericField_def)
lemma compareRows_numeric:
  "key \<noteq> BySymbol \<Longrightarrow>
   compareRows key d a b =
     (let x = numOf (numericField key a); y = numOf (numericField key b);
          dir = (if d = Asc then 1 else - 1)
      in if num_lt x y then - dir else if num_lt y x then dir else 0)"
  by (simp add: compareRows_def keyLess_numeric Let_def)

lemma compareRows_Desc: "compareRows key Desc a b = - compareRows key Asc a b"
  by (simp add: compareRows_def)

subsection \<open>Consistent comparisons\<close>

text \<open>
  When tying is transitive on the rows, so is being in order; the sorted rows are then
  in order, and rows that tie keep their input order.
\<close>

lemma tied_refl: "tied key a a"
  by (simp add: tied_def keyLess_irrefl)

lemma tied_sym: "tied key a b \<Longrightarrow> tied key b a"
  by (simp add: tied_def)

lemma tied_le: "tied key a b \<longleftrightarrow> compareRows key d a b \<le> 0 \<and> compareRows key d b a \<le> 0"
  by (auto simp: tied_def compareRows_le)

lemma consistentOn_tied:
  "consistentOn key rs \<Longrightarrow> a \<in> set rs \<Longrightarrow> b \<in> set rs \<Longrightarrow> c \<in> set rs \<Longrightarrow>
   tied key a b \<Longrightarrow> tied key b c \<Longrightarrow> tied key a c"
  unfolding consistentOn_def by blast


lemma consistentOn_negtrans:
  assumes con: "consistentOn key rs" and mem: "a \<in> set rs" "b \<in> set rs" "c \<in> set rs"
    and ba: "\<not> keyLess key b a" and cb: "\<not> keyLess key c b"
  shows "\<not> keyLess key c a"
proof
  assume ca: "keyLess key c a"
  have ab: "\<not> keyLess key a b"
  proof
    assume "keyLess key a b"
    with ca have "keyLess key c b" by (rule keyLess_trans)
    with cb show False by simp
  qed
  have bc: "\<not> keyLess key b c"
  proof
    assume "keyLess key b c"
    then have "keyLess key b a" using ca by (rule keyLess_trans)
    with ba show False by simp
  qed
  from ab ba have "tied key a b" by (simp add: tied_def)
  moreover from bc cb have "tied key b c" by (simp add: tied_def)
  ultimately have "tied key a c" using con mem by (blast intro: consistentOn_tied)
  with ca show False by (simp add: tied_def)
qed

lemma compareRows_le_trans:
  assumes "consistentOn key rs" "a \<in> set rs" "b \<in> set rs" "c \<in> set rs"
    and "compareRows key d a b \<le> 0" "compareRows key d b c \<le> 0"
  shows "compareRows key d a c \<le> 0"
proof (cases "d = Asc")
  case True
  with assms(5,6) have "\<not> keyLess key b a" "\<not> keyLess key c b" by (simp_all add: compareRows_le)
  with assms(1-4) have "\<not> keyLess key c a" by (rule consistentOn_negtrans)
  with True show ?thesis by (simp add: compareRows_le)
next
  case False
  with assms(5,6) have "\<not> keyLess key b c" "\<not> keyLess key a b" by (simp_all add: compareRows_le)
  with assms(1,4,3,2) have "\<not> keyLess key a c" by (rule consistentOn_negtrans)
  with False show ?thesis by (simp add: compareRows_le)
qed

lemma num_lt_negtrans:
  "x \<noteq> NaN \<Longrightarrow> y \<noteq> NaN \<Longrightarrow> z \<noteq> NaN \<Longrightarrow> \<not> num_lt y x \<Longrightarrow> \<not> num_lt z y \<Longrightarrow> \<not> num_lt z x"
  by (cases x; cases y; cases z) simp_all

lemma keyLess_negtrans:
  "keyDefined key a \<Longrightarrow> keyDefined key b \<Longrightarrow> keyDefined key c \<Longrightarrow>
   \<not> keyLess key b a \<Longrightarrow> \<not> keyLess key c b \<Longrightarrow> \<not> keyLess key c a"
  by (cases key) (auto simp: keyDefined_def numericField_def dest: num_lt_negtrans)

text \<open>Without a NaN key, and without ties, the comparison is consistent.\<close>

lemma keyDefined_consistentOn:
  assumes "\<forall>r \<in> set rs. keyDefined key r"
  shows "consistentOn key rs"
  unfolding consistentOn_def
proof (intro ballI impI)
  fix a b c
  assume m: "a \<in> set rs" "b \<in> set rs" "c \<in> set rs" and t: "tied key a b \<and> tied key b c"
  from m assms have d: "keyDefined key a" "keyDefined key b" "keyDefined key c" by simp_all
  from t have "\<not> keyLess key b a" "\<not> keyLess key c b" by (simp_all add: tied_def)
  with d have 1: "\<not> keyLess key c a" by (rule keyLess_negtrans)
  from t have "\<not> keyLess key b c" "\<not> keyLess key a b" by (simp_all add: tied_def)
  with d(3,2,1) have 2: "\<not> keyLess key a c" by (rule keyLess_negtrans)
  from 1 2 show "tied key a c" by (simp add: tied_def)
qed



lemma sorted_le_insertBy:
  "sorted_wrt (\<lambda>a b. compareRows key d a b \<le> 0) ys \<Longrightarrow>
   consistentOn key rs \<Longrightarrow> x \<in> set rs \<Longrightarrow> set ys \<subseteq> set rs \<Longrightarrow>
   sorted_wrt (\<lambda>a b. compareRows key d a b \<le> 0) (insertBy (compareRows key d) x ys)"
proof (induction ys)
  case Nil
  then show ?case by simp
next
  case (Cons y ys)
  show ?case
  proof (cases "compareRows key d x y \<le> 0")
    case True
    have "\<forall>z \<in> set ys. compareRows key d x z \<le> 0"
    proof
      fix z assume z: "z \<in> set ys"
      with Cons.prems(1) have "compareRows key d y z \<le> 0" by simp
      moreover from z Cons.prems(4) have "y \<in> set rs" "z \<in> set rs" by auto
      ultimately show "compareRows key d x z \<le> 0"
        using True Cons.prems(2,3) by (blast intro: compareRows_le_trans)
    qed
    with True Cons.prems(1) show ?thesis by simp
  next
    case False
    then have yx: "compareRows key d y x \<le> 0"
      by (simp add: compareRows_swap[of key d x y])
    from Cons.prems have "sorted_wrt (\<lambda>a b. compareRows key d a b \<le> 0) (insertBy (compareRows key d) x ys)"
      by (intro Cons.IH) simp_all
    with False yx Cons.prems(1) show ?thesis by (auto simp: set_insertBy)
  qed
qed

lemma sorted_le_sortRows_on:
  "consistentOn key rs \<Longrightarrow> set xs \<subseteq> set rs \<Longrightarrow>
   sorted_wrt (\<lambda>a b. compareRows key d a b \<le> 0) (sortRows key d xs)"
proof (induction xs)
  case Nil
  then show ?case by (simp add: sortRows_def)
next
  case (Cons x xs)
  then have "sorted_wrt (\<lambda>a b. compareRows key d a b \<le> 0) (sortBy (compareRows key d) xs)"
    by (simp add: sortRows_def)
  with Cons.prems show ?case
    by (simp add: sortRows_def sorted_le_insertBy set_sortBy)
qed

lemma sorted_le_sortRows:
  "\<forall>r \<in> set rs. keyDefined key r \<Longrightarrow>
   sorted_wrt (\<lambda>a b. compareRows key d a b \<le> 0) (sortRows key d rs)"
  by (rule sorted_le_sortRows_on[of key rs]) (simp_all add: keyDefined_consistentOn)

lemma tied_class_le:
  assumes "consistentOn key rs" "x \<in> set rs" "a \<in> set rs" "b \<in> set rs"
    "tied key x a" "tied key x b"
  shows "compareRows key d a b \<le> 0"
proof -
  from assms(5) have "tied key a x" by (rule tied_sym)
  with assms have "tied key a b" by (blast intro: consistentOn_tied)
  then show ?thesis by (simp add: tied_le[of key a b d])
qed

lemma filter_tied_sortRows:
  assumes "consistentOn key rs" "x \<in> set rs" "set xs \<subseteq> set rs"
  shows "filter (tied key x) (sortRows key d xs) = filter (tied key x) xs"
proof -
  let ?P = "\<lambda>a. a \<in> set rs \<and> tied key x a"
  have "filter ?P (sortRows key d xs) = filter ?P xs"
    unfolding sortRows_def
    by (rule filter_sortBy) (auto intro: tied_class_le[OF assms(1,2)])
  moreover from assms(3) have "filter ?P xs = filter (tied key x) xs"
    by (intro filter_cong) auto
  moreover from assms(3) have "filter ?P (sortRows key d xs) = filter (tied key x) (sortRows key d xs)"
    by (intro filter_cong) (auto simp: set_sortRows)
  ultimately show ?thesis by simp
qed

text \<open>Only one arrangement is in order with the ties in a given order.\<close>

lemma stable_sorted_unique:
  "sorted_wrt (\<lambda>a b. compareRows key d a b \<le> 0) ys \<Longrightarrow>
   sorted_wrt (\<lambda>a b. compareRows key d a b \<le> 0) zs \<Longrightarrow>
   set ys \<subseteq> S \<Longrightarrow> set zs \<subseteq> S \<Longrightarrow>
   \<forall>x \<in> S. filter (tied key x) ys = filter (tied key x) zs \<Longrightarrow>
   ys = zs"
proof (induction ys arbitrary: zs)
  case Nil
  show ?case
  proof (cases zs)
    case Nil
    then show ?thesis by simp
  next
    case (Cons z zs')
    with Nil.prems(4) have dz: "z \<in> S" by simp
    with Nil.prems(5) have "[] = filter (tied key z) zs" by simp
    with Cons show ?thesis by (simp add: tied_refl)
  qed
next
  case (Cons y ys)
  from Cons.prems(3) have dy: "y \<in> S" by simp
  with Cons.prems(5) have fy: "filter (tied key y) (y # ys) = filter (tied key y) zs" by blast
  then have "filter (tied key y) zs = y # filter (tied key y) ys" by (simp add: tied_refl)
  then have "filter (tied key y) zs \<noteq> []" by simp
  then obtain z zs' where zs: "zs = z # zs'" by (cases zs) auto
  with Cons.prems(4) have dz: "z \<in> S" by simp
  from Cons.prems(5) dz have fz: "filter (tied key z) (y # ys) = filter (tied key z) zs" by blast
  from zs have "z \<in> set (filter (tied key z) zs)" by (simp add: tied_refl)
  moreover from fz have "set (filter (tied key z) zs) \<subseteq> set (y # ys)" by (metis filter_is_subset)
  ultimately have "z \<in> set (y # ys)" by blast
  with Cons.prems(1) have yz: "compareRows key d y z \<le> 0"
    by (auto simp: compareRows_refl)
  have "y \<in> set (filter (tied key y) (y # ys))" by (simp add: tied_refl)
  moreover from fy have "set (filter (tied key y) (y # ys)) \<subseteq> set zs" by (metis filter_is_subset)
  ultimately have "y \<in> set zs" by blast
  with Cons.prems(2) zs have zy: "compareRows key d z y \<le> 0"
    by (auto simp: compareRows_refl)
  from yz zy have t: "tied key y z" by (simp add: tied_le[of key y z d])
  with fy zs have eq: "y = z" by (simp add: tied_refl)
  have "ys = zs'"
  proof (rule Cons.IH)
    from Cons.prems(1) show "sorted_wrt (\<lambda>a b. compareRows key d a b \<le> 0) ys" by simp
    from Cons.prems(2) zs show "sorted_wrt (\<lambda>a b. compareRows key d a b \<le> 0) zs'" by simp
    from Cons.prems(3) show "set ys \<subseteq> S" by simp
    from Cons.prems(4) zs show "set zs' \<subseteq> S" by simp
    show "\<forall>x \<in> S. filter (tied key x) ys = filter (tied key x) zs'"
    proof
      fix x assume "x \<in> S"
      with Cons.prems(5) have "filter (tied key x) (y # ys) = filter (tied key x) (z # zs')"
        using zs by blast
      with eq show "filter (tied key x) ys = filter (tied key x) zs'"
        by (simp split: if_splits)
    qed
  qed
  with eq zs show ?case by simp
qed

subsection \<open>The result of the sort\<close>

text \<open>
  The stable insertion sort is always a result the language allows, and under a
  consistent comparison it is the only one.
\<close>

lemma sortsTo_sortRows: "sortsTo key d rs (sortRows key d rs)"
  by (simp add: sortsTo_def inOrder_def stableFor_def mset_sortRows sorted_le_sortRows_on
      filter_tied_sortRows)

lemma sortsTo_set: "sortsTo key d rs ys \<Longrightarrow> set ys = set rs"
  by (auto simp: sortsTo_def dest: mset_eq_setD)

lemma sortsTo_unique:
  assumes "consistentOn key rs" "sortsTo key d rs ys"
  shows "ys = sortRows key d rs"
proof (rule stable_sorted_unique[of key d _ _ "set rs"])
  from assms show "sorted_wrt (\<lambda>a b. compareRows key d a b \<le> 0) ys"
    by (simp add: sortsTo_def inOrder_def)
  from assms(1) show "sorted_wrt (\<lambda>a b. compareRows key d a b \<le> 0) (sortRows key d rs)"
    by (simp add: sorted_le_sortRows_on)
  from assms(2) show "set ys \<subseteq> set rs" by (simp add: sortsTo_set)
  show "set (sortRows key d rs) \<subseteq> set rs" by (simp add: set_sortRows)
  from assms show "\<forall>x \<in> set rs. filter (tied key x) ys = filter (tied key x) (sortRows key d rs)"
    by (simp add: sortsTo_def stableFor_def filter_tied_sortRows)
qed

lemma sortsTo_iff: "consistentOn key rs \<Longrightarrow> sortsTo key d rs ys \<longleftrightarrow> ys = sortRows key d rs"
  by (auto simp: sortsTo_sortRows dest: sortsTo_unique)








lemmas sort_eval = sortRows_def compareRows_def numOf_def flipDir_def quoteRow_def noQuoteRow_def
  numericField_def keyDefined_def lit_def

subsection \<open>Sorting again, and in the other direction\<close>




subsection \<open>Null numbers\<close>

text \<open>
  Claim C10. On a numeric sort key a \<open>null\<close> field compares as the number 0. The
  comparison function and the sorted rows are the same when 0 is written for every null.
  In ascending order a row with a null field goes before a row with a positive value and
  after a row with a negative value, whatever their input order; it ties with a row whose
  value is 0 (or null), and the two keep their input order. Descending order negates the
  comparison, so it reverses these positions and keeps the ties. When no key is NaN the
  sorted rows are in order for the comparison function.
\<close>

theorem null_compares_as_zero:
  "compareRows key d (nullAsZero a) (nullAsZero b) = compareRows key d a b \<and>
   map nullAsZero (sortRows key d rs) = sortRows key d (map nullAsZero rs) \<and>
   compareRows key Desc a b = - compareRows key Asc a b \<and>
   (key \<noteq> BySymbol \<and> numericField key a = None \<longrightarrow>
      (num_lt (Fin 0) (numOf (numericField key b)) \<longrightarrow>
         compareRows key Asc a b < 0 \<and>
         sortRows key Asc [a, b] = [a, b] \<and> sortRows key Asc [b, a] = [a, b] \<and>
         compareRows key Desc a b > 0 \<and>
         sortRows key Desc [a, b] = [b, a] \<and> sortRows key Desc [b, a] = [b, a]) \<and>
      (num_lt (numOf (numericField key b)) (Fin 0) \<longrightarrow>
         compareRows key Asc a b > 0 \<and>
         sortRows key Asc [a, b] = [b, a] \<and> sortRows key Asc [b, a] = [b, a] \<and>
         compareRows key Desc a b < 0 \<and>
         sortRows key Desc [a, b] = [a, b] \<and> sortRows key Desc [b, a] = [a, b]) \<and>
      (numOf (numericField key b) = Fin 0 \<longrightarrow>
         compareRows key d a b = 0 \<and> compareRows key d b a = 0 \<and>
         sortRows key d [a, b] = [a, b] \<and> sortRows key d [b, a] = [b, a])) \<and>
   ((\<forall>r \<in> set rs. keyDefined key r) \<longrightarrow>
      sorted_wrt (\<lambda>a b. compareRows key d a b \<le> 0) (sortRows key d rs))"
proof (intro conjI impI)
  show "compareRows key d (nullAsZero a) (nullAsZero b) = compareRows key d a b"
    by (rule compareRows_nullAsZero)
  show "map nullAsZero (sortRows key d rs) = sortRows key d (map nullAsZero rs)"
    by (rule map_nullAsZero_sortRows)
  show "compareRows key Desc a b = - compareRows key Asc a b"
    by (rule compareRows_Desc)
next
  assume "\<forall>r \<in> set rs. keyDefined key r"
  then show "sorted_wrt (\<lambda>a b. compareRows key d a b \<le> 0) (sortRows key d rs)"
    by (rule sorted_le_sortRows)
next
  assume k: "key \<noteq> BySymbol \<and> numericField key a = None"
    and pos: "num_lt (Fin 0) (numOf (numericField key b))"
  from pos have npos: "\<not> num_lt (numOf (numericField key b)) (Fin 0)" by (rule num_lt_asym)
  from k pos npos show "compareRows key Asc a b < 0"
    by (simp add: compareRows_numeric numOf_def)
  from k pos npos show "sortRows key Asc [a, b] = [a, b]"
    by (simp add: sortRows_pair compareRows_numeric numOf_def)
  from k pos npos show "sortRows key Asc [b, a] = [a, b]"
    by (simp add: sortRows_pair compareRows_numeric numOf_def)
  from k pos npos show "compareRows key Desc a b > 0"
    by (simp add: compareRows_numeric numOf_def)
  from k pos npos show "sortRows key Desc [a, b] = [b, a]"
    by (simp add: sortRows_pair compareRows_numeric numOf_def)
  from k pos npos show "sortRows key Desc [b, a] = [b, a]"
    by (simp add: sortRows_pair compareRows_numeric numOf_def)
next
  assume k: "key \<noteq> BySymbol \<and> numericField key a = None"
    and neg: "num_lt (numOf (numericField key b)) (Fin 0)"
  from neg have nneg: "\<not> num_lt (Fin 0) (numOf (numericField key b))" by (rule num_lt_asym)
  from k neg nneg show "compareRows key Asc a b > 0"
    by (simp add: compareRows_numeric numOf_def)
  from k neg nneg show "sortRows key Asc [a, b] = [b, a]"
    by (simp add: sortRows_pair compareRows_numeric numOf_def)
  from k neg nneg show "sortRows key Asc [b, a] = [b, a]"
    by (simp add: sortRows_pair compareRows_numeric numOf_def)
  from k neg nneg show "compareRows key Desc a b < 0"
    by (simp add: compareRows_numeric numOf_def)
  from k neg nneg show "sortRows key Desc [a, b] = [a, b]"
    by (simp add: sortRows_pair compareRows_numeric numOf_def)
  from k neg nneg show "sortRows key Desc [b, a] = [a, b]"
    by (simp add: sortRows_pair compareRows_numeric numOf_def)
next
  assume k: "key \<noteq> BySymbol \<and> numericField key a = None"
    and z: "numOf (numericField key b) = Fin 0"
  from k z show "compareRows key d a b = 0"
    by (simp add: compareRows_numeric numOf_def)
  from k z show "compareRows key d b a = 0"
    by (simp add: compareRows_numeric numOf_def)
  from k z show "sortRows key d [a, b] = [a, b]"
    by (simp add: sortRows_pair compareRows_numeric numOf_def)
  from k z show "sortRows key d [b, a] = [b, a]"
    by (simp add: sortRows_pair compareRows_numeric numOf_def)
qed

theorem null_compares_as_zero_witness:
  "numericField ByPrice (noQuoteRow (lit ''B'') Error) = None \<and>
   num_lt (Fin 0) (numOf (numericField ByPrice (quoteRow (lit ''A'') 3 (- 1)))) \<and>
   sortRows ByPrice Asc [quoteRow (lit ''A'') 3 (- 1), noQuoteRow (lit ''B'') Error]
     = [noQuoteRow (lit ''B'') Error, quoteRow (lit ''A'') 3 (- 1)] \<and>
   sortRows ByPrice Desc [noQuoteRow (lit ''B'') Error, quoteRow (lit ''A'') 3 (- 1)]
     = [quoteRow (lit ''A'') 3 (- 1), noQuoteRow (lit ''B'') Error] \<and>
   numericField ByChangePercent (noQuoteRow (lit ''B'') Error) = None \<and>
   num_lt (numOf (numericField ByChangePercent (quoteRow (lit ''A'') 3 (- 1)))) (Fin 0) \<and>
   sortRows ByChangePercent Asc [noQuoteRow (lit ''B'') Error, quoteRow (lit ''A'') 3 (- 1)]
     = [quoteRow (lit ''A'') 3 (- 1), noQuoteRow (lit ''B'') Error] \<and>
   sortRows ByChangePercent Desc [quoteRow (lit ''A'') 3 (- 1), noQuoteRow (lit ''B'') Error]
     = [noQuoteRow (lit ''B'') Error, quoteRow (lit ''A'') 3 (- 1)] \<and>
   numOf (numericField ByPrice (quoteRow (lit ''D'') 0 5)) = Fin 0 \<and>
   sortRows ByPrice Asc [quoteRow (lit ''D'') 0 5, noQuoteRow (lit ''B'') Error]
     = [quoteRow (lit ''D'') 0 5, noQuoteRow (lit ''B'') Error] \<and>
   sortRows ByPrice Asc [noQuoteRow (lit ''B'') Error, quoteRow (lit ''D'') 0 5]
     = [noQuoteRow (lit ''B'') Error, quoteRow (lit ''D'') 0 5] \<and>
   sortRows ByPrice Desc [quoteRow (lit ''D'') 0 5, noQuoteRow (lit ''B'') Error]
     = [quoteRow (lit ''D'') 0 5, noQuoteRow (lit ''B'') Error] \<and>
   keyDefined ByPrice (quoteRow (lit ''A'') 3 (- 1)) \<and> keyDefined ByPrice (noQuoteRow (lit ''B'') Error) \<and>
   sorted_wrt (\<lambda>a b. compareRows ByPrice Asc a b \<le> 0)
     (sortRows ByPrice Asc [quoteRow (lit ''A'') 3 (- 1), noQuoteRow (lit ''B'') Error])"
  using
    null_compares_as_zero[where key = ByPrice and d = Asc and a = "noQuoteRow (lit ''B'') Error"
      and b = "quoteRow (lit ''A'') 3 (- 1)"
      and rs = "[quoteRow (lit ''A'') 3 (- 1), noQuoteRow (lit ''B'') Error]"]
    null_compares_as_zero[where key = ByChangePercent and d = Asc and a = "noQuoteRow (lit ''B'') Error"
      and b = "quoteRow (lit ''A'') 3 (- 1)" and rs = "[]"]
    null_compares_as_zero[where key = ByPrice and d = Asc and a = "noQuoteRow (lit ''B'') Error"
      and b = "quoteRow (lit ''D'') 0 5" and rs = "[]"]
    null_compares_as_zero[where key = ByPrice and d = Desc and a = "noQuoteRow (lit ''B'') Error"
      and b = "quoteRow (lit ''D'') 0 5" and rs = "[]"]
  by (simp add: sort_eval)

section \<open>The quote classifier\<close>

subsection \<open>The decision order\<close>


lemma quotePrice_Some:
  "quotePrice quote = Some (q, p) \<longleftrightarrow>
     quote = Some q \<and> truthyValue q \<and> getProp ''05. price'' q = Some p \<and> truthyValue p"
  by (cases quote) (auto split: option.splits)














subsection \<open>Responses that make the loop body throw\<close>


lemma classify_replaceThrows:
  assumes nn: "data \<noteq> JNull" and rt: "replaceThrows data"
  shows "classify pf sy data = Inl notAFunctionError"
proof -
  from rt have n: "\<not> (isString (getProp ''Note'' data) \<or> isString (getProp ''Information'' data))"
    and e: "\<not> truthy (getProp ''Error Message'' data)"
    by (simp_all add: replaceThrows_def)
  from rt obtain q where q: "getProp ''Global Quote'' data = Some q" "truthyValue q"
    "truthy (getProp ''05. price'' q)" "truthy (getProp ''10. change percent'' q)"
    "\<not> isString (getProp ''10. change percent'' q)"
    by (auto simp: replaceThrows_def split: option.splits)
  from q(3) obtain p where p: "getProp ''05. price'' q = Some p" "truthyValue p"
    by (cases "getProp ''05. price'' q") auto
  from q(4) obtain v where v: "getProp ''10. change percent'' q = Some v" "truthyValue v"
    by (cases "getProp ''10. change percent'' q") auto
  from q p have qp: "quotePrice (getProp ''Global Quote'' data) = Some (q, p)"
    by (simp add: quotePrice_Some)
  from v q(5) have "\<forall>s. v \<noteq> JStr s" by auto
  with nn n e qp v show ?thesis
    by (cases v) (simp_all add: classify_def)
qed





section \<open>The symbol normalizer\<close>

























lemma split_example:
  "split 44 (lit ''aapl, MSFT ,, googl'') = [lit ''aapl'', lit '' MSFT '', [], lit '' googl'']"
  by (simp add: lit_def)




end
